theory Spec2Isabelle
  imports Main "HOL-Library.AList"
begin

section \<open>Python values, HTTP requests and the outside world\<close>

text \<open>
  The client of \<^verbatim>\<open>prox/libs/proxmox/pyproxmox.py\<close> talks to its server through the
  \<^verbatim>\<open>requests\<close> library and reads the replies with \<^verbatim>\<open>response.json()\<close>. The values the
  decoder returns are Python values: \<^verbatim>\<open>None\<close>, booleans, numbers, strings, lists and
  dicts. A dict is kept as an association list in insertion order with distinct keys.
  A float is carried as the text of its literal.
\<close>

datatype pyval =
    PyNone
  | PyBool bool
  | PyInt int
  | PyFloat string
  | PyStr string
  | PyList "pyval list"
  | PyDict "(string \<times> pyval) list"

text \<open>
  The exceptions the modelled code can raise. \<open>RequestException\<close> is what
  \<^verbatim>\<open>requests\<close> raises when the transport fails (its message is kept), \<open>ValueError\<close>
  is what \<^verbatim>\<open>response.json()\<close> raises on a body that is not JSON, \<open>KeyError\<close> and
  \<open>TypeError\<close> come from subscripting, \<open>AttributeError\<close> from reading an attribute
  that was never assigned, \<open>SystemExit\<close> from \<^verbatim>\<open>exit()\<close>.
\<close>

datatype exn =
    RequestException string
  | ValueError
  | KeyError string
  | TypeError
  | AttributeError string
  | SystemExit

datatype http_method = GET | POST | PUT | DELETE

text \<open>
  One call of \<^verbatim>\<open>requests.get/post/put/delete\<close>: the function called, the URL and the
  keyword arguments. A keyword argument that the call does not pass is \<open>None\<close>.
\<close>

record http_request =
  http_method :: http_method
  http_url :: string
  http_verify :: bool
  http_data :: "(string \<times> string) list option"
  http_cookies :: "(string \<times> pyval) list option"
  http_headers :: "(string \<times> string) list option"

text \<open>
  A response object: its status, its raw body, and what \<^verbatim>\<open>response.json()\<close> gives on
  it (\<open>None\<close> when the body is not valid JSON and the decoder raises).
\<close>

record http_response =
  status_code :: nat
  body :: string
  json_body :: "pyval option"

datatype net_result = NetError string | NetReply http_response

text \<open>
  The server and the network are a function of the requests sent so far and the request
  being sent: any sequential behaviour of the remote side is such a function.
\<close>

type_synonym server = "http_request list \<Rightarrow> http_request \<Rightarrow> net_result"

datatype out = OutStr string | OutResponse http_response | OutExn exn

text \<open>The observable effects: the requests sent, in order, and what was printed.\<close>

record world =
  trace :: "http_request list"
  stdout :: "out list"

definition send :: "server \<Rightarrow> world \<Rightarrow> http_request \<Rightarrow> net_result \<times> world" where
  "send srv w req = (srv (trace w) req, w\<lparr>trace := trace w @ [req]\<rparr>)"

definition py_print :: "world \<Rightarrow> out \<Rightarrow> world" where
  "py_print w x = w\<lparr>stdout := stdout w @ [x]\<rparr>"

text \<open>
  Python's \<^verbatim>\<open>str(v)\<close>, also what \<^verbatim>\<open>"%s" % v\<close> inserts: a string is itself; any other
  value is rendered by its \<^verbatim>\<open>repr\<close>, which is taken as the parameter \<open>rp\<close>.
\<close>

fun py_str :: "(pyval \<Rightarrow> string) \<Rightarrow> pyval \<Rightarrow> string" where
  "py_str rp (PyStr s) = s"
| "py_str rp v = rp v"

text \<open>Python's \<^verbatim>\<open>v[k]\<close> for a string key \<open>k\<close>.\<close>

fun py_getitem :: "pyval \<Rightarrow> string \<Rightarrow> exn + pyval" where
  "py_getitem (PyDict kvs) k =
     (case map_of kvs k of None \<Rightarrow> Inl (KeyError k) | Some v \<Rightarrow> Inr v)"
| "py_getitem v k = Inl TypeError"

section \<open>The authentication class\<close>

text \<open>
  \<^verbatim>\<open>prox_auth.__init__(self, url, username, password)\<close>. The fields are assigned in the
  order of the source; an exception leaves no object to the caller.
\<close>

record prox_auth =
  auth_url :: string
  auth_connect_data :: "(string \<times> string) list"
  auth_full_url :: string
  auth_response :: http_response
  auth_returned_data :: pyval
  auth_ticket :: "(string \<times> pyval) list"
  auth_CSRF :: pyval

definition ticket_url :: "string \<Rightarrow> string" where
  "ticket_url host = ''https://'' @ host @ '':8006/api2/json/access/ticket''"

definition auth_request :: "string \<Rightarrow> string \<Rightarrow> string \<Rightarrow> http_request" where
  "auth_request host username password =
     \<lparr>http_method = POST, http_url = ticket_url host, http_verify = False,
      http_data = Some [(''username'', username), (''password'', password)],
      http_cookies = None, http_headers = None\<rparr>"

definition prox_auth_init ::
  "server \<Rightarrow> world \<Rightarrow> string \<Rightarrow> string \<Rightarrow> string \<Rightarrow> (exn + prox_auth) \<times> world" where
  "prox_auth_init srv w host username password =
     (case send srv w (auth_request host username password) of
        (NetError m, w1) \<Rightarrow> (Inl (RequestException m), w1)
      | (NetReply r, w1) \<Rightarrow>
          (case json_body r of
             None \<Rightarrow> (Inl ValueError, w1)
           | Some rd \<Rightarrow>
               (case py_getitem rd ''data'' of
                  Inl e \<Rightarrow> (Inl e, w1)
                | Inr d \<Rightarrow>
                    (case py_getitem d ''ticket'' of
                       Inl e \<Rightarrow> (Inl e, w1)
                     | Inr t \<Rightarrow>
                         (case py_getitem d ''CSRFPreventionToken'' of
                            Inl e \<Rightarrow> (Inl e, w1)
                          | Inr c \<Rightarrow>
                              (Inr \<lparr>auth_url = host,
                                    auth_connect_data =
                                      [(''username'', username), (''password'', password)],
                                    auth_full_url = ticket_url host,
                                    auth_response = r,
                                    auth_returned_data = rd,
                                    auth_ticket = [(''PVEAuthCookie'', t)],
                                    auth_CSRF = c\<rparr>, w1))))))"

section \<open>The dispatcher class\<close>

text \<open>
  An instance of \<^verbatim>\<open>pyproxmox\<close>. The constructor assigns \<open>url\<close>, \<open>ticket\<close> and \<open>CSRF\<close>;
  \<open>full_url\<close>, \<open>response\<close> and \<open>returned_data\<close> do not exist until \<^verbatim>\<open>connect\<close> assigns
  them.
\<close>

record pyproxmox =
  url :: string
  ticket :: "(string \<times> pyval) list"
  CSRF :: pyval
  full_url :: "string option"
  response :: "http_response option"
  returned_data :: "pyval option"

definition pyproxmox_init :: "prox_auth \<Rightarrow> pyproxmox" where
  "pyproxmox_init auth_class =
     \<lparr>url = auth_url auth_class, ticket = auth_ticket auth_class, CSRF = auth_CSRF auth_class,
      full_url = None, response = None, returned_data = None\<rparr>"

definition api_url :: "string \<Rightarrow> string \<Rightarrow> string" where
  "api_url host option = ''https://'' @ host @ '':8006/api2/json/'' @ option"

definition httpheaders0 :: "(string \<times> string) list" where
  "httpheaders0 =
     [(''Accept'', ''application/json''),
      (''Content-Type'', ''application/x-www-form-urlencoded'')]"

text \<open>The headers of a mutating call: the dict after the CSRF assignment.\<close>

definition csrf_headers :: "(pyval \<Rightarrow> string) \<Rightarrow> pyproxmox \<Rightarrow> (string \<times> string) list" where
  "csrf_headers rp self =
     AList.update ''CSRFPreventionToken'' (py_str rp (CSRF self)) httpheaders0"

text \<open>
  The \<^verbatim>\<open>if/elif\<close> chain of \<^verbatim>\<open>connect\<close>: which request is made, if any. The chain has no
  \<^verbatim>\<open>else\<close>, so any other \<open>conn_type\<close> makes none.
\<close>

definition build_request ::
  "(pyval \<Rightarrow> string) \<Rightarrow> pyproxmox \<Rightarrow> string \<Rightarrow> string \<Rightarrow> (string \<times> string) list option
     \<Rightarrow> http_request option" where
  "build_request rp self conn_type u post_data =
     (if conn_type = ''post'' then
        Some \<lparr>http_method = POST, http_url = u, http_verify = False, http_data = post_data,
              http_cookies = Some (ticket self), http_headers = Some (csrf_headers rp self)\<rparr>
      else if conn_type = ''put'' then
        Some \<lparr>http_method = PUT, http_url = u, http_verify = False, http_data = post_data,
              http_cookies = Some (ticket self), http_headers = Some (csrf_headers rp self)\<rparr>
      else if conn_type = ''delete'' then
        Some \<lparr>http_method = DELETE, http_url = u, http_verify = False, http_data = post_data,
              http_cookies = Some (ticket self), http_headers = Some (csrf_headers rp self)\<rparr>
      else if conn_type = ''get'' then
        Some \<lparr>http_method = GET, http_url = u, http_verify = False, http_data = None,
              http_cookies = Some (ticket self), http_headers = None\<rparr>
      else None)"

text \<open>
  The \<^verbatim>\<open>try/except\<close> at the end of \<^verbatim>\<open>connect\<close>. Reading \<^verbatim>\<open>self.response\<close> when it was
  never assigned raises inside the \<^verbatim>\<open>try\<close>; the bare \<^verbatim>\<open>except\<close> catches that, prints
  the message, and then reads \<^verbatim>\<open>self.response\<close> again, which raises out of the handler.
  When the decoder raises, the handler prints twice and the method ends without a
  \<^verbatim>\<open>return\<close>: the caller gets \<^verbatim>\<open>None\<close>.
\<close>

definition read_response :: "pyproxmox \<Rightarrow> world \<Rightarrow> (exn + pyval) \<times> pyproxmox \<times> world" where
  "read_response self w =
     (case response self of
        None \<Rightarrow>
          (Inl (AttributeError ''response''), self,
           py_print w (OutStr ''Error in trying to process JSON''))
      | Some r \<Rightarrow>
          (case json_body r of
             Some j \<Rightarrow> (Inr j, self\<lparr>returned_data := Some j\<rparr>, w)
           | None \<Rightarrow>
               (Inr PyNone, self,
                py_print (py_print w (OutStr ''Error in trying to process JSON''))
                  (OutResponse r))))"

text \<open>
  \<^verbatim>\<open>connect(self, conn_type, option, post_data)\<close>: the result or the exception, the
  instance after the call, and the world after the call.
\<close>

definition connect ::
  "(pyval \<Rightarrow> string) \<Rightarrow> server \<Rightarrow> pyproxmox \<Rightarrow> world \<Rightarrow> string \<Rightarrow> string
     \<Rightarrow> (string \<times> string) list option \<Rightarrow> (exn + pyval) \<times> pyproxmox \<times> world" where
  "connect rp srv self w conn_type option post_data =
     (let self1 = self\<lparr>full_url := Some (api_url (url self) option)\<rparr> in
      case build_request rp self1 conn_type (api_url (url self) option) post_data of
        None \<Rightarrow> read_response self1 w
      | Some req \<Rightarrow>
          (case send srv w req of
             (NetError m, w1) \<Rightarrow> (Inl (RequestException m), self1, w1)
           | (NetReply r, w1) \<Rightarrow> read_response (self1\<lparr>response := Some r\<rparr>) w1))"

section \<open>Endpoint wrappers\<close>

definition getClusterStatus ::
  "(pyval \<Rightarrow> string) \<Rightarrow> server \<Rightarrow> pyproxmox \<Rightarrow> world \<Rightarrow> (exn + pyval) \<times> pyproxmox \<times> world" where
  "getClusterStatus rp srv self w = connect rp srv self w ''get'' ''cluster/status'' None"

definition migrateOpenvzContainer ::
  "(pyval \<Rightarrow> string) \<Rightarrow> server \<Rightarrow> pyproxmox \<Rightarrow> world \<Rightarrow> pyval \<Rightarrow> pyval \<Rightarrow> pyval
     \<Rightarrow> (exn + pyval) \<times> pyproxmox \<times> world" where
  "migrateOpenvzContainer rp srv self w node vmid target =
     connect rp srv self w ''post''
       (''nodes/'' @ py_str rp node @ ''/openvz/'' @ py_str rp vmid @ ''/migrate'')
       (Some [(''target'', py_str rp target)])"

definition migrateVirtualMachine ::
  "(pyval \<Rightarrow> string) \<Rightarrow> server \<Rightarrow> pyproxmox \<Rightarrow> world \<Rightarrow> pyval \<Rightarrow> pyval \<Rightarrow> pyval
     \<Rightarrow> (exn + pyval) \<times> pyproxmox \<times> world" where
  "migrateVirtualMachine rp srv self w node vmid target =
     connect rp srv self w ''post''
       (''nodes/'' @ py_str rp node @ ''/qemu/'' @ py_str rp vmid @ ''/status/start'')
       (Some [(''target'', py_str rp target)])"

section \<open>The callers' helper\<close>

text \<open>
  \<^verbatim>\<open>get_auth\<close> of \<^verbatim>\<open>prox/libs/clusters_lib.py\<close> and \<^verbatim>\<open>prox/libs/network_lib.py\<close>. It
  calls \<^verbatim>\<open>login_lib.load_dumped_session()\<close>, whose outcome is the parameter \<open>loaded\<close>.
  \<^verbatim>\<open>except Exception\<close> does not catch \<^verbatim>\<open>SystemExit\<close>; any other exception is printed
  and the program exits.
\<close>

definition get_auth :: "exn + pyproxmox \<Rightarrow> world \<Rightarrow> (exn + pyproxmox) \<times> world" where
  "get_auth loaded w =
     (case loaded of
        Inl e \<Rightarrow> (if e = SystemExit then (Inl SystemExit, w)
                  else (Inl SystemExit, py_print w (OutExn e)))
      | Inr prox \<Rightarrow> (Inr prox, w))"

section \<open>Notions used to state the properties\<close>

text \<open>The verbs \<^verbatim>\<open>connect\<close> knows.\<close>

definition verbs :: "string set" where
  "verbs = {''get'', ''post'', ''put'', ''delete''}"

text \<open>The value of the CSRF header of a request, if it has one.\<close>

definition csrf_header :: "http_request \<Rightarrow> string option" where
  "csrf_header req =
     (case http_headers req of None \<Rightarrow> None | Some h \<Rightarrow> map_of h ''CSRFPreventionToken'')"

text \<open>Two slashes in a row somewhere in a string.\<close>

fun double_slash :: "string \<Rightarrow> bool" where
  "double_slash (a # b # cs) = ((a = CHR ''/'' \<and> b = CHR ''/'') \<or> double_slash (b # cs))"
| "double_slash cs = False"

text \<open>A path is relative when it does not start with a slash.\<close>

fun relative :: "string \<Rightarrow> bool" where
  "relative [] = True"
| "relative (c # cs) = (c \<noteq> CHR ''/'')"

text \<open>Whether a decoded body has \<^verbatim>\<open>data.ticket\<close> and \<^verbatim>\<open>data.CSRFPreventionToken\<close>.\<close>

definition has_token_fields :: "pyval \<Rightarrow> bool" where
  "has_token_fields rd =
     (case py_getitem rd ''data'' of
        Inl e \<Rightarrow> False
      | Inr d \<Rightarrow>
          (case py_getitem d ''ticket'' of
             Inl e \<Rightarrow> False
           | Inr t \<Rightarrow>
               (case py_getitem d ''CSRFPreventionToken'' of
                  Inl e \<Rightarrow> False
                | Inr c \<Rightarrow> True)))"

text \<open>
  A caller that makes several calls of \<^verbatim>\<open>connect\<close> on one instance, one after the other,
  going on after an exception: each call is (\<open>conn_type\<close>, \<open>option\<close>, \<open>post_data\<close>).
\<close>

type_synonym call = "string \<times> string \<times> (string \<times> string) list option"

fun run_calls ::
  "(pyval \<Rightarrow> string) \<Rightarrow> server \<Rightarrow> pyproxmox \<Rightarrow> world \<Rightarrow> call list
     \<Rightarrow> (exn + pyval) list \<times> pyproxmox \<times> world" where
  "run_calls rp srv self w [] = ([], self, w)"
| "run_calls rp srv self w ((conn_type, option, post_data) # cs) =
     (case connect rp srv self w conn_type option post_data of
        (res, self1, w1) \<Rightarrow>
          (case run_calls rp srv self1 w1 cs of
             (rs, self2, w2) \<Rightarrow> (res # rs, self2, w2)))"

text \<open>The request each call of such a sequence makes for an instance, if it makes one.\<close>

definition requests_of :: "(pyval \<Rightarrow> string) \<Rightarrow> pyproxmox \<Rightarrow> call list \<Rightarrow> http_request list" where
  "requests_of rp self cs =
     List.map_filter
       (\<lambda>(conn_type, option, post_data).
          build_request rp self conn_type (api_url (url self) option) post_data) cs"

section \<open>Sample inputs\<close>

text \<open>A rendering of non-string values, used only where every value is a string.\<close>

definition sample_repr :: "pyval \<Rightarrow> string" where
  "sample_repr v = ''None''"

definition world0 :: world where
  "world0 = \<lparr>trace = [], stdout = []\<rparr>"

definition mock_data :: pyval where
  "mock_data =
     PyDict [(''data'',
       PyDict [(''ticket'', PyStr ''T1''), (''CSRFPreventionToken'', PyStr ''C1'')])]"

definition mock_auth_reply :: http_response where
  "mock_auth_reply = \<lparr>status_code = 200, body = ''(ticket T1, token C1)'', json_body = Some mock_data\<rparr>"

definition status_data :: pyval where
  "status_data = PyDict [(''data'', PyList [PyDict [(''name'', PyStr ''pve''), (''online'', PyInt 1)]])]"

definition status_reply :: http_response where
  "status_reply = \<lparr>status_code = 200, body = ''(cluster status)'', json_body = Some status_data\<rparr>"

definition html_reply :: http_response where
  "html_reply = \<lparr>status_code = 502, body = ''<html>Bad Gateway</html>'', json_body = None\<rparr>"

definition null_reply :: http_response where
  "null_reply =
     \<lparr>status_code = 401, body = ''(data null)'', json_body = Some (PyDict [(''data'', PyNone)])\<rparr>"

text \<open>A server that issues the ticket T1 with the token C1 and answers every other call
  with the cluster status.\<close>

definition bare_reply :: http_response where
  "bare_reply =
     \<lparr>status_code = 200, body = ''(data without ticket)'',
      json_body = Some (PyDict [(''data'', PyDict [(''username'', PyStr ''root@pam'')])])\<rparr>"

definition mock_server :: server where
  "mock_server tr req =
     (if http_url req = ticket_url ''host'' then NetReply mock_auth_reply
      else NetReply status_reply)"

definition html_server :: server where
  "html_server tr req = NetReply html_reply"

definition null_server :: server where
  "null_server tr req = NetReply null_reply"

definition bare_server :: server where
  "bare_server tr req = NetReply bare_reply"

definition down_server :: server where
  "down_server tr req = NetError ''Connection refused''"

definition mock_auth :: prox_auth where
  "mock_auth =
     \<lparr>auth_url = ''host'',
      auth_connect_data = [(''username'', ''root@pam''), (''password'', ''secret'')],
      auth_full_url = ticket_url ''host'',
      auth_response = mock_auth_reply,
      auth_returned_data = mock_data,
      auth_ticket = [(''PVEAuthCookie'', PyStr ''T1'')],
      auth_CSRF = PyStr ''C1''\<rparr>"

definition sample_calls :: "call list" where
  "sample_calls =
     [(''get'', ''cluster/status'', None),
      (''patch'', ''nodes/pve/dns'', None),
      (''post'', ''nodes/pve/qemu/100/status/stop'', None)]"

definition verb_calls :: "call list" where
  "verb_calls =
     [(''get'', ''cluster/status'', None),
      (''post'', ''nodes/pve/qemu/100/status/stop'', None),
      (''patch'', ''nodes/pve/dns'', None),
      (''put'', ''nodes/pve/dns'', Some [(''search'', ''example.org'')]),
      (''delete'', ''nodes/pve/qemu/100'', None)]"

definition mock_session :: pyproxmox where
  "mock_session =
     \<lparr>url = ''host'', ticket = [(''PVEAuthCookie'', PyStr ''T1'')], CSRF = PyStr ''C1'',
      full_url = None, response = None, returned_data = None\<rparr>"

section \<open>Basic facts about the model\<close>

subsection \<open>Slashes\<close>

lemma double_slash_append:
  "double_slash (xs @ ys) \<longleftrightarrow>
     double_slash xs \<or> double_slash ys \<or>
     (xs \<noteq> [] \<and> ys \<noteq> [] \<and> last xs = CHR ''/'' \<and> hd ys = CHR ''/'')"
proof (induction xs)
  case Nil
  show ?case by simp
next
  case (Cons a xs)
  show ?case
  proof (cases xs)
    case Nil
    then show ?thesis by (cases ys) auto
  next
    case (Cons b zs)
    with Cons.IH show ?thesis by auto
  qed
qed

lemma double_slash_template:
  assumes "\<not> double_slash host" and "\<not> double_slash p" and "relative p"
  shows "\<not> double_slash (host @ '':8006/api2/json/'' @ p)"
proof -
  have "\<not> double_slash (CHR ''/'' # p)"
    using assms(2,3) by (cases p) auto
  then have mid: "\<not> double_slash ('':8006/api2/json/'' @ p)"
    by simp
  show ?thesis
    using assms(1) mid by (simp add: double_slash_append)
qed

subsection \<open>One call\<close>

lemma build_request_full_url [simp]:
  "build_request rp (self\<lparr>full_url := x\<rparr>) t u d = build_request rp self t u d"
  by (simp add: build_request_def csrf_headers_def)

lemma build_request_unknown:
  "t \<notin> verbs \<Longrightarrow> build_request rp self t u d = None"
  by (simp add: build_request_def verbs_def)

lemma build_request_get:
  "build_request rp self ''get'' u d =
     Some \<lparr>http_method = GET, http_url = u, http_verify = False, http_data = None,
           http_cookies = Some (ticket self), http_headers = None\<rparr>"
  by (simp add: build_request_def)

lemma build_request_known:
  assumes "t \<in> verbs"
  shows "\<exists>req. build_request rp self t u d = Some req \<and> http_url req = u \<and>
           http_verify req = False \<and> http_cookies req = Some (ticket self) \<and>
           http_headers req = (if t = ''get'' then None else Some (csrf_headers rp self))"
  using assms by (auto simp add: build_request_def verbs_def)

lemma read_response_trace: "trace (snd (snd (read_response self w))) = trace w"
  by (simp add: read_response_def py_print_def split: option.splits)

lemma read_response_creds:
  "url (fst (snd (read_response self w))) = url self \<and>
   ticket (fst (snd (read_response self w))) = ticket self \<and>
   CSRF (fst (snd (read_response self w))) = CSRF self"
  by (simp add: read_response_def split: option.splits)

lemma connect_trace:
  "trace (snd (snd (connect rp srv self w t opt d))) =
     trace w @ (case build_request rp self t (api_url (url self) opt) d of
                  None \<Rightarrow> [] | Some req \<Rightarrow> [req])"
  by (simp add: connect_def Let_def send_def read_response_trace
           split: option.splits net_result.splits)

lemma connect_creds:
  "url (fst (snd (connect rp srv self w t opt d))) = url self \<and>
   ticket (fst (snd (connect rp srv self w t opt d))) = ticket self \<and>
   CSRF (fst (snd (connect rp srv self w t opt d))) = CSRF self"
  by (simp add: connect_def Let_def send_def read_response_creds
           split: option.splits net_result.splits)

lemma connect_full_url:
  "t \<in> verbs \<Longrightarrow> full_url (fst (snd (connect rp srv self w t opt d))) = Some (api_url (url self) opt)"
  by (auto simp add: connect_def Let_def send_def read_response_def
           split: option.splits net_result.splits)

lemma build_request_creds:
  "ticket s1 = ticket s2 \<Longrightarrow> CSRF s1 = CSRF s2 \<Longrightarrow>
     build_request rp s1 t u d = build_request rp s2 t u d"
  by (simp add: build_request_def csrf_headers_def)


lemma csrf_header_built:
  "build_request rp self t u d = Some req \<Longrightarrow>
     http_url req = u \<and> http_verify req = False \<and>
     http_cookies req = Some (ticket self) \<and>
     csrf_header req = (if http_method req = GET then None else Some (py_str rp (CSRF self)))"
  by (auto simp add: build_request_def csrf_header_def csrf_headers_def httpheaders0_def
        split: if_splits)

subsection \<open>Sequences of calls\<close>

lemma requests_of_creds:
  "url s1 = url s2 \<Longrightarrow> ticket s1 = ticket s2 \<Longrightarrow> CSRF s1 = CSRF s2 \<Longrightarrow>
     requests_of rp s1 cs = requests_of rp s2 cs"
  by (simp add: requests_of_def build_request_creds [of s1 s2])

lemma requests_of_Nil: "requests_of rp self [] = []"
  by (simp add: requests_of_def map_filter_simps)

lemma requests_of_Cons:
  "requests_of rp self ((t, opt, d) # cs) =
     (case build_request rp self t (api_url (url self) opt) d of
        None \<Rightarrow> [] | Some req \<Rightarrow> [req]) @ requests_of rp self cs"
  by (simp add: requests_of_def map_filter_simps split: option.splits)

lemma run_calls_frame:
  "run_calls rp srv self w cs = (rs, self', w') \<Longrightarrow>
     trace w' = trace w @ requests_of rp self cs \<and>
     url self' = url self \<and> ticket self' = ticket self \<and> CSRF self' = CSRF self \<and>
     length rs = length cs"
proof (induction cs arbitrary: self w rs self' w')
  case Nil
  then show ?case by (simp add: requests_of_Nil)
next
  case (Cons c cs)
  obtain t opt d where c: "c = (t, opt, d)" by (cases c)
  obtain res self1 w1 where one: "connect rp srv self w t opt d = (res, self1, w1)"
    by (cases "connect rp srv self w t opt d")
  obtain rs1 self2 w2 where rest: "run_calls rp srv self1 w1 cs = (rs1, self2, w2)"
    by (cases "run_calls rp srv self1 w1 cs")
  from Cons.prems c one rest have out: "rs = res # rs1" "self' = self2" "w' = w2"
    by simp_all
  have creds: "url self1 = url self" "ticket self1 = ticket self" "CSRF self1 = CSRF self"
    using connect_creds [of rp srv self w t opt d] one by simp_all
  have tr: "trace w1 = trace w @
      (case build_request rp self t (api_url (url self) opt) d of
         None \<Rightarrow> [] | Some req \<Rightarrow> [req])"
    using connect_trace [of rp srv self w t opt d] one by simp
  have same: "requests_of rp self1 cs = requests_of rp self cs"
    using creds by (rule requests_of_creds)
  from Cons.IH [OF rest] creds tr same out show ?case
    by (simp add: c requests_of_Cons)
qed

lemma requests_of_member:
  assumes "req \<in> set (requests_of rp self cs)"
  shows "\<exists>t opt d. (t, opt, d) \<in> set cs \<and>
           build_request rp self t (api_url (url self) opt) d = Some req"
  using assms
proof (induction cs)
  case Nil
  then show ?case by (simp add: requests_of_Nil)
next
  case (Cons c cs)
  obtain t opt d where c: "c = (t, opt, d)" by (cases c)
  from Cons.prems consider
      "build_request rp self t (api_url (url self) opt) d = Some req"
    | "req \<in> set (requests_of rp self cs)"
    by (auto simp add: c requests_of_Cons split: option.splits)
  then show ?case
  proof cases
    case 1
    then show ?thesis using c by auto
  next
    case 2
    from Cons.IH [OF 2] show ?thesis by auto
  qed
qed

lemma requests_of_length:
  "length (requests_of rp self cs) = length (filter (\<lambda>c. fst c \<in> verbs) cs)"
proof (induction cs)
  case Nil
  show ?case by (simp add: requests_of_Nil)
next
  case (Cons c cs)
  obtain t opt d where c: "c = (t, opt, d)" by (cases c)
  show ?case
  proof (cases "t \<in> verbs")
    case True
    from build_request_known [OF True, of rp self "api_url (url self) opt" d]
    obtain req where "build_request rp self t (api_url (url self) opt) d = Some req"
      by blast
    with True Cons.IH show ?thesis by (simp add: c requests_of_Cons)
  next
    case False
    with Cons.IH show ?thesis
      by (simp add: c requests_of_Cons build_request_unknown)
  qed
qed

lemma build_request_data:
  "build_request rp self t u d = Some req \<Longrightarrow> http_data req = None \<or> http_data req = d"
  by (auto simp add: build_request_def split: if_splits)

section \<open>The request URL\<close>

text \<open>
  Claim C2. For each of the four verbs, \<^verbatim>\<open>connect\<close> sends exactly one request, and its
  URL is the string \<^verbatim>\<open>https://{host}:8006/api2/json/{path}\<close>: the host and the path are
  inserted as they are, with the separators of the template between them. The same string
  is left in \<^verbatim>\<open>self.full_url\<close>. After the scheme the URL has no double slash, when the
  host and the path have none and the path is relative.
\<close>

theorem connect_url_exact:
  assumes verb: "conn_type \<in> {''get'', ''post'', ''put'', ''delete''}"
    and call: "connect rp srv self w conn_type option post_data = (res, self', w')"
  shows "\<exists>req. trace w' = trace w @ [req] \<and>
           http_url req = ''https://'' @ url self @ '':8006/api2/json/'' @ option \<and>
           full_url self' = Some (http_url req) \<and>
           (\<not> double_slash (url self) \<and> \<not> double_slash option \<and> relative option
              \<longrightarrow> \<not> double_slash (drop 8 (http_url req)))"
proof -
  from verb have known: "conn_type \<in> verbs" by (simp add: verbs_def)
  from build_request_known [OF known, of rp self "api_url (url self) option" post_data]
  obtain req where req: "build_request rp self conn_type (api_url (url self) option) post_data = Some req"
    and u: "http_url req = api_url (url self) option"
    by blast
  have tr: "trace w' = trace w @ [req]"
    using connect_trace [of rp srv self w conn_type option post_data] call req by simp
  have fu: "full_url self' = Some (http_url req)"
    using connect_full_url [OF known, of rp srv self w option post_data] call u by simp
  have ds: "\<not> double_slash (drop 8 (http_url req))"
    if "\<not> double_slash (url self)" "\<not> double_slash option" "relative option"
    using double_slash_template [OF that] by (simp add: u api_url_def)
  from tr u fu ds show ?thesis by (auto simp add: api_url_def)
qed

theorem connect_url_exact_witness:
  "''put'' \<in> {''get'', ''post'', ''put'', ''delete''} \<and>
   \<not> double_slash ''host'' \<and> \<not> double_slash ''nodes/pve/dns'' \<and> relative ''nodes/pve/dns'' \<and>
   (\<exists>req. trace (snd (snd (connect sample_repr mock_server mock_session world0
                               ''put'' ''nodes/pve/dns'' None))) = [req] \<and>
      http_url req = ''https://host:8006/api2/json/nodes/pve/dns'' \<and>
      \<not> double_slash (drop 8 (http_url req)))"
proof -
  have verb: "''put'' \<in> {''get'', ''post'', ''put'', ''delete''}" by simp
  obtain res self' w' where call:
    "connect sample_repr mock_server mock_session world0 ''put'' ''nodes/pve/dns'' None
       = (res, self', w')"
    by (cases "connect sample_repr mock_server mock_session world0 ''put'' ''nodes/pve/dns'' None")
  have hyps: "\<not> double_slash (url mock_session) \<and> \<not> double_slash ''nodes/pve/dns'' \<and>
      relative ''nodes/pve/dns''"
    by (simp add: mock_session_def)
  have w': "snd (snd (connect sample_repr mock_server mock_session world0
      ''put'' ''nodes/pve/dns'' None)) = w'"
    by (simp add: call)
  from connect_url_exact [OF verb call] hyps obtain req where
    "trace w' = trace world0 @ [req]"
    "http_url req = ''https://'' @ url mock_session @ '':8006/api2/json/'' @ ''nodes/pve/dns''"
    "\<not> double_slash (drop 8 (http_url req))"
    by blast
  then have "trace w' = [req] \<and> http_url req = ''https://host:8006/api2/json/nodes/pve/dns'' \<and>
      \<not> double_slash (drop 8 (http_url req))"
    by (simp add: world0_def mock_session_def)
  then show ?thesis
    unfolding w' by auto
qed

section \<open>Credentials on the requests\<close>

lemma collapse3: "x = (fst x, fst (snd x), snd (snd x))"
  by simp

lemma build_request_by_verb:
  assumes "t \<in> verbs"
  shows "\<exists>req. build_request rp self t u d = Some req \<and>
           http_method req =
             (if t = ''get'' then GET else if t = ''post'' then POST
              else if t = ''put'' then PUT else DELETE) \<and>
           http_url req = u \<and>
           http_cookies req = Some (ticket self) \<and>
           csrf_header req = (if t = ''get'' then None else Some (py_str rp (CSRF self)))"
  using assms
  by (auto simp add: build_request_def verbs_def csrf_header_def csrf_headers_def
        httpheaders0_def)

lemma requests_of_by_verb:
  "list_all2
     (\<lambda>c req.
        http_method req =
          (if fst c = ''get'' then GET else if fst c = ''post'' then POST
           else if fst c = ''put'' then PUT else DELETE) \<and>
        http_url req = api_url (url self) (fst (snd c)) \<and>
        http_cookies req = Some (ticket self) \<and>
        csrf_header req = (if fst c = ''get'' then None else Some (py_str rp (CSRF self))))
     (filter (\<lambda>c. fst c \<in> verbs) cs) (requests_of rp self cs)"
proof (induction cs)
  case Nil
  show ?case by (simp add: requests_of_Nil)
next
  case (Cons c cs)
  obtain t opt d where c: "c = (t, opt, d)" by (cases c)
  show ?case
  proof (cases "t \<in> verbs")
    case True
    from build_request_by_verb [OF True, of rp self "api_url (url self) opt" d]
    obtain req where "build_request rp self t (api_url (url self) opt) d = Some req"
      "http_method req =
        (if t = ''get'' then GET else if t = ''post'' then POST
         else if t = ''put'' then PUT else DELETE)"
      "http_url req = api_url (url self) opt"
      "http_cookies req = Some (ticket self)"
      "csrf_header req = (if t = ''get'' then None else Some (py_str rp (CSRF self)))"
      by blast
    with True Cons.IH show ?thesis by (simp add: c requests_of_Cons)
  next
    case False
    with Cons.IH show ?thesis
      by (simp add: c requests_of_Cons build_request_unknown)
  qed
qed

text \<open>
  Claim C1. Take a session \<open>a\<close>, the dispatcher built from it, and any sequence of calls.
  The requests sent are, in order, one for each call whose \<open>conn_type\<close> is one of the
  four verbs, and none for any other call. The request of a call is made with the function
  of its \<open>conn_type\<close>, to the URL of its path, and carries the ticket of the session as
  its cookie. For \<^verbatim>\<open>get\<close> it has no CSRF header; for \<^verbatim>\<open>post\<close>, \<^verbatim>\<open>put\<close> and
  \<^verbatim>\<open>delete\<close> it has the CSRF header, and its value is \<^verbatim>\<open>str\<close> of the token of the
  session: the token itself when it is a string.
\<close>

theorem csrf_exactly_on_mutating:
  assumes run: "run_calls rp srv (pyproxmox_init a) w cs = (rs, self', w')"
  shows "\<exists>new. trace w' = trace w @ new \<and>
           list_all2
             (\<lambda>c req.
                http_method req =
                  (if fst c = ''get'' then GET else if fst c = ''post'' then POST
                   else if fst c = ''put'' then PUT else DELETE) \<and>
                http_url req = ''https://'' @ auth_url a @ '':8006/api2/json/'' @ fst (snd c) \<and>
                http_cookies req = Some (auth_ticket a) \<and>
                csrf_header req =
                  (if fst c = ''get'' then None else Some (py_str rp (auth_CSRF a))) \<and>
                (\<forall>tok. auth_CSRF a = PyStr tok \<and> fst c \<in> {''post'', ''put'', ''delete''}
                   \<longrightarrow> csrf_header req = Some tok))
             (filter (\<lambda>c. fst c \<in> {''get'', ''post'', ''put'', ''delete''}) cs) new \<and>
           (\<forall>req \<in> set new.
              http_cookies req = Some (auth_ticket a) \<and>
              (http_method req = GET \<longrightarrow> csrf_header req = None) \<and>
              (http_method req \<in> {POST, PUT, DELETE} \<longrightarrow>
                 csrf_header req = Some (py_str rp (auth_CSRF a))))"
proof -
  let ?self = "pyproxmox_init a"
  let ?new = "requests_of rp ?self cs"
  have creds: "url ?self = auth_url a" "ticket ?self = auth_ticket a" "CSRF ?self = auth_CSRF a"
    by (simp_all add: pyproxmox_init_def)
  have tr: "trace w' = trace w @ ?new"
    using run_calls_frame [OF run] by simp
  have vs: "verbs = {''get'', ''post'', ''put'', ''delete''}"
    by (simp add: verbs_def)
  have per_call: "list_all2
             (\<lambda>c req.
                http_method req =
                  (if fst c = ''get'' then GET else if fst c = ''post'' then POST
                   else if fst c = ''put'' then PUT else DELETE) \<and>
                http_url req = ''https://'' @ auth_url a @ '':8006/api2/json/'' @ fst (snd c) \<and>
                http_cookies req = Some (auth_ticket a) \<and>
                csrf_header req =
                  (if fst c = ''get'' then None else Some (py_str rp (auth_CSRF a))) \<and>
                (\<forall>tok. auth_CSRF a = PyStr tok \<and> fst c \<in> {''post'', ''put'', ''delete''}
                   \<longrightarrow> csrf_header req = Some tok))
             (filter (\<lambda>c. fst c \<in> {''get'', ''post'', ''put'', ''delete''}) cs) ?new"
    using requests_of_by_verb [of ?self rp cs] unfolding vs creds api_url_def
    by (rule list_all2_mono) auto
  have each: "http_cookies req = Some (auth_ticket a) \<and>
      (http_method req = GET \<longrightarrow> csrf_header req = None) \<and>
      (http_method req \<in> {POST, PUT, DELETE} \<longrightarrow>
         csrf_header req = Some (py_str rp (auth_CSRF a)))"
    if "req \<in> set ?new" for req
  proof -
    from requests_of_member [OF that] obtain t opt d where
      "build_request rp ?self t (api_url (url ?self) opt) d = Some req"
      by blast
    from csrf_header_built [OF this] creds show ?thesis by auto
  qed
  from tr per_call each show ?thesis by blast
qed

theorem csrf_exactly_on_mutating_witness:
  "map http_method (trace (snd (snd
      (run_calls sample_repr mock_server (pyproxmox_init mock_auth) world0 verb_calls))))
     = [GET, POST, PUT, DELETE] \<and>
   map csrf_header (trace (snd (snd
      (run_calls sample_repr mock_server (pyproxmox_init mock_auth) world0 verb_calls))))
     = [None, Some ''C1'', Some ''C1'', Some ''C1''] \<and>
   map http_cookies (trace (snd (snd
      (run_calls sample_repr mock_server (pyproxmox_init mock_auth) world0 verb_calls))))
     = [Some [(''PVEAuthCookie'', PyStr ''T1'')], Some [(''PVEAuthCookie'', PyStr ''T1'')],
        Some [(''PVEAuthCookie'', PyStr ''T1'')], Some [(''PVEAuthCookie'', PyStr ''T1'')]]"
proof -
  let ?r = "run_calls sample_repr mock_server (pyproxmox_init mock_auth) world0 verb_calls"
  have run: "?r = (fst ?r, fst (snd ?r), snd (snd ?r))"
    by (rule collapse3)
  have known: "filter (\<lambda>c. fst c \<in> {''get'', ''post'', ''put'', ''delete''}) verb_calls =
     [(''get'', ''cluster/status'', None),
      (''post'', ''nodes/pve/qemu/100/status/stop'', None),
      (''put'', ''nodes/pve/dns'', Some [(''search'', ''example.org'')]),
      (''delete'', ''nodes/pve/qemu/100'', None)]"
    by (simp add: verb_calls_def)
  from csrf_exactly_on_mutating [OF run] obtain new where
    tr: "trace (snd (snd ?r)) = trace world0 @ new" and
    per_call: "list_all2
       (\<lambda>c req.
          http_method req =
            (if fst c = ''get'' then GET else if fst c = ''post'' then POST
             else if fst c = ''put'' then PUT else DELETE) \<and>
          http_cookies req = Some (auth_ticket mock_auth) \<and>
          csrf_header req =
            (if fst c = ''get'' then None else Some (py_str sample_repr (auth_CSRF mock_auth))))
       (filter (\<lambda>c. fst c \<in> {''get'', ''post'', ''put'', ''delete''}) verb_calls) new"
    by (blast intro: list_all2_mono)
  from per_call obtain r1 r2 r3 r4 where new: "new = [r1, r2, r3, r4]"
    and "http_method r1 = GET" "http_method r2 = POST" "http_method r3 = PUT"
      "http_method r4 = DELETE"
    and "csrf_header r1 = None" "csrf_header r2 = Some ''C1''" "csrf_header r3 = Some ''C1''"
      "csrf_header r4 = Some ''C1''"
    and "http_cookies r1 = Some [(''PVEAuthCookie'', PyStr ''T1'')]"
      "http_cookies r2 = Some [(''PVEAuthCookie'', PyStr ''T1'')]"
      "http_cookies r3 = Some [(''PVEAuthCookie'', PyStr ''T1'')]"
      "http_cookies r4 = Some [(''PVEAuthCookie'', PyStr ''T1'')]"
    unfolding known by (auto simp add: list_all2_Cons1 mock_auth_def)
  with tr show ?thesis
    by (simp add: world0_def)
qed

text \<open>
  Claim C6. Over any sequence of calls on one instance, failed calls included, the host,
  the ticket and the token of the instance stay what they were. The requests sent are
  those the calls build from the first values of these fields, at most one for each call:
  each carries the same cookie, its CSRF header is absent or the same token, and its URL
  and its data are those of one of the calls, so the dispatcher sends no request of its
  own to authenticate again.
\<close>

theorem credentials_never_mutated:
  assumes run: "run_calls rp srv self w cs = (rs, self', w')"
  shows "url self' = url self \<and> ticket self' = ticket self \<and> CSRF self' = CSRF self \<and>
         trace w' = trace w @ requests_of rp self cs \<and>
         length (requests_of rp self cs) \<le> length cs \<and>
         (\<forall>req \<in> set (requests_of rp self cs).
            http_cookies req = Some (ticket self) \<and>
            (csrf_header req = None \<or> csrf_header req = Some (py_str rp (CSRF self))) \<and>
            (\<exists>(conn_type, option, post_data) \<in> set cs.
               http_url req = api_url (url self) option \<and>
               (http_data req = None \<or> http_data req = post_data)))"
proof -
  have len: "length (requests_of rp self cs) \<le> length cs"
    by (simp add: requests_of_length)
  have each: "http_cookies req = Some (ticket self) \<and>
      (csrf_header req = None \<or> csrf_header req = Some (py_str rp (CSRF self))) \<and>
      (\<exists>(conn_type, option, post_data) \<in> set cs.
         http_url req = api_url (url self) option \<and>
         (http_data req = None \<or> http_data req = post_data))"
    if "req \<in> set (requests_of rp self cs)" for req
  proof -
    from requests_of_member [OF that] obtain t opt d where
      mem: "(t, opt, d) \<in> set cs" and
      b: "build_request rp self t (api_url (url self) opt) d = Some req"
      by blast
    from csrf_header_built [OF b] build_request_data [OF b] mem show ?thesis
      by (auto split: if_splits)
  qed
  from run_calls_frame [OF run] len each show ?thesis by blast
qed

theorem credentials_never_mutated_witness:
  "url (fst (snd (run_calls sample_repr mock_server mock_session world0 sample_calls))) = ''host'' \<and>
   ticket (fst (snd (run_calls sample_repr mock_server mock_session world0 sample_calls)))
     = [(''PVEAuthCookie'', PyStr ''T1'')] \<and>
   CSRF (fst (snd (run_calls sample_repr mock_server mock_session world0 sample_calls)))
     = PyStr ''C1'' \<and>
   map http_url (trace (snd (snd
      (run_calls sample_repr mock_server mock_session world0 sample_calls))))
     = [''https://host:8006/api2/json/cluster/status'',
        ''https://host:8006/api2/json/nodes/pve/qemu/100/status/stop'']"
proof -
  let ?r = "run_calls sample_repr mock_server mock_session world0 sample_calls"
  have run: "?r = (fst ?r, fst (snd ?r), snd (snd ?r))"
    by (rule collapse3)
  have req: "map http_url (requests_of sample_repr mock_session sample_calls)
     = [''https://host:8006/api2/json/cluster/status'',
        ''https://host:8006/api2/json/nodes/pve/qemu/100/status/stop'']"
    by (simp add: requests_of_def sample_calls_def build_request_def api_url_def mock_session_def)
  from credentials_never_mutated [OF run] have
    "url (fst (snd ?r)) = url mock_session" "ticket (fst (snd ?r)) = ticket mock_session"
    "CSRF (fst (snd ?r)) = CSRF mock_session"
    "trace (snd (snd ?r)) = trace world0 @ requests_of sample_repr mock_session sample_calls"
    by simp_all
  then show ?thesis
    by (simp add: req world0_def) (simp add: mock_session_def)
qed

section \<open>Headers\<close>

text \<open>
  Claim C8, as the code has it. A request for \<^verbatim>\<open>post\<close>, \<^verbatim>\<open>put\<close> or \<^verbatim>\<open>delete\<close> carries
  exactly three headers: \<^verbatim>\<open>Accept: application/json\<close>,
  \<^verbatim>\<open>Content-Type: application/x-www-form-urlencoded\<close> and \<^verbatim>\<open>CSRFPreventionToken\<close>. A
  request for \<^verbatim>\<open>get\<close> is made with the cookie only: the header dict is built but not
  passed to \<^verbatim>\<open>requests.get\<close>.
\<close>

theorem headers_on_mutating_only:
  assumes verb: "conn_type \<in> {''get'', ''post'', ''put'', ''delete''}"
    and call: "connect rp srv self w conn_type option post_data = (res, self', w')"
  shows "\<exists>req. trace w' = trace w @ [req] \<and>
           http_cookies req = Some (ticket self) \<and>
           (if conn_type = ''get'' then http_headers req = None
            else http_headers req =
              Some [(''Accept'', ''application/json''),
                    (''Content-Type'', ''application/x-www-form-urlencoded''),
                    (''CSRFPreventionToken'', py_str rp (CSRF self))])"
proof -
  from verb have known: "conn_type \<in> verbs" by (simp add: verbs_def)
  from build_request_known [OF known, of rp self "api_url (url self) option" post_data]
  obtain req where req: "build_request rp self conn_type (api_url (url self) option) post_data = Some req"
    and c: "http_cookies req = Some (ticket self)"
    and h: "http_headers req = (if conn_type = ''get'' then None else Some (csrf_headers rp self))"
    by blast
  have tr: "trace w' = trace w @ [req]"
    using connect_trace [of rp srv self w conn_type option post_data] call req by simp
  have "csrf_headers rp self =
      [(''Accept'', ''application/json''),
       (''Content-Type'', ''application/x-www-form-urlencoded''),
       (''CSRFPreventionToken'', py_str rp (CSRF self))]"
    by (simp add: csrf_headers_def httpheaders0_def)
  with tr c h show ?thesis by auto
qed

theorem headers_on_mutating_only_witness:
  "''delete'' \<in> {''get'', ''post'', ''put'', ''delete''} \<and>
   map http_headers (trace (snd (snd (connect sample_repr mock_server mock_session world0
      ''delete'' ''nodes/pve/qemu/100'' None)))) =
     [Some [(''Accept'', ''application/json''),
            (''Content-Type'', ''application/x-www-form-urlencoded''),
            (''CSRFPreventionToken'', ''C1'')]]"
proof -
  let ?r = "connect sample_repr mock_server mock_session world0 ''delete'' ''nodes/pve/qemu/100'' None"
  have verb: "''delete'' \<in> {''get'', ''post'', ''put'', ''delete''}" by simp
  have call: "?r = (fst ?r, fst (snd ?r), snd (snd ?r))"
    by (rule collapse3)
  from headers_on_mutating_only [OF verb call] obtain req where
    "trace (snd (snd ?r)) = trace world0 @ [req]"
    "http_headers req = Some [(''Accept'', ''application/json''),
            (''Content-Type'', ''application/x-www-form-urlencoded''),
            (''CSRFPreventionToken'', py_str sample_repr (CSRF mock_session))]"
    by auto
  then show ?thesis
    by (simp add: world0_def mock_session_def)
qed

text \<open>
  The claim as the specification words it fails for \<^verbatim>\<open>get\<close>: the one request of a
  \<^verbatim>\<open>get\<close> call is made by \<^verbatim>\<open>requests.get\<close> and has no header of the client's.
\<close>

theorem get_carries_no_headers:
  "map http_headers (trace (snd (snd (connect sample_repr mock_server mock_session world0
      ''get'' ''cluster/status'' None)))) = [None] \<and>
   map http_method (trace (snd (snd (connect sample_repr mock_server mock_session world0
      ''get'' ''cluster/status'' None)))) = [GET]"
  by (simp add: connect_trace build_request_get world0_def)

section \<open>What a call returns\<close>

lemma connect_reply:
  assumes b: "build_request rp self t (api_url (url self) opt) d = Some req"
    and r: "srv (trace w) req = NetReply r"
  shows "connect rp srv self w t opt d =
     read_response (self\<lparr>full_url := Some (api_url (url self) opt), response := Some r\<rparr>)
       (w\<lparr>trace := trace w @ [req]\<rparr>)"
  using b r by (simp add: connect_def Let_def send_def)

lemma connect_error:
  assumes b: "build_request rp self t (api_url (url self) opt) d = Some req"
    and r: "srv (trace w) req = NetError m"
  shows "connect rp srv self w t opt d =
     (Inl (RequestException m), self\<lparr>full_url := Some (api_url (url self) opt)\<rparr>,
      w\<lparr>trace := trace w @ [req]\<rparr>)"
  using b r by (simp add: connect_def Let_def send_def)

lemma connect_unknown:
  assumes "t \<notin> verbs"
  shows "connect rp srv self w t opt d =
     read_response (self\<lparr>full_url := Some (api_url (url self) opt)\<rparr>) w"
  using assms by (simp add: connect_def Let_def build_request_unknown)

lemma read_response_value:
  "response self = Some r \<Longrightarrow>
     fst (read_response self w) = (case json_body r of Some j \<Rightarrow> Inr j | None \<Rightarrow> Inr PyNone)"
  by (simp add: read_response_def split: option.splits)

lemma read_response_returned:
  "read_response self w = (Inr v, self', w') \<Longrightarrow>
     \<exists>r. response self' = Some r \<and>
         (case json_body r of Some j \<Rightarrow> Inr j | None \<Rightarrow> Inr PyNone) = (Inr v :: exn + pyval)"
  by (auto simp add: read_response_def split: option.splits)

lemma connect_returned:
  assumes "connect rp srv self w t opt d = (Inr v, self', w')"
  shows "\<exists>r. response self' = Some r \<and>
         (case json_body r of Some j \<Rightarrow> Inr j | None \<Rightarrow> Inr PyNone) = (Inr v :: exn + pyval)"
proof (cases "build_request rp self t (api_url (url self) opt) d")
  case None
  with assms have "read_response (self\<lparr>full_url := Some (api_url (url self) opt)\<rparr>) w
      = (Inr v, self', w')"
    by (simp add: connect_def Let_def)
  then show ?thesis by (rule read_response_returned)
next
  case (Some req)
  show ?thesis
  proof (cases "srv (trace w) req")
    case (NetError m)
    from connect_error [where srv = srv and w = w, OF Some NetError] assms show ?thesis by simp
  next
    case (NetReply r)
    from connect_reply [where srv = srv and w = w, OF Some NetReply] assms
    have "read_response
        (self\<lparr>full_url := Some (api_url (url self) opt), response := Some r\<rparr>)
        (w\<lparr>trace := trace w @ [req]\<rparr>) = (Inr v, self', w')"
      by simp
    then show ?thesis by (rule read_response_returned)
  qed
qed

text \<open>
  Claim C10. A call of \<^verbatim>\<open>connect\<close> whose \<open>conn_type\<close> is none of \<^verbatim>\<open>get\<close>, \<^verbatim>\<open>post\<close>,
  \<^verbatim>\<open>put\<close>, \<^verbatim>\<open>delete\<close> sends no request. On an instance that has no response yet it
  returns nothing: reading the absent response raises \<^verbatim>\<open>AttributeError\<close>. On an instance
  that holds the response of an earlier call it decodes that response again and returns
  its body, which is what the earlier call returned.
\<close>

theorem unknown_verb_sends_nothing:
  assumes bad: "conn_type \<notin> {''get'', ''post'', ''put'', ''delete''}"
    and call: "connect rp srv self w conn_type option post_data = (res, self', w')"
  shows "trace w' = trace w \<and>
         (response self = None \<longrightarrow> res = Inl (AttributeError ''response'')) \<and>
         (\<forall>r j. response self = Some r \<and> json_body r = Some j \<longrightarrow> res = Inr j) \<and>
         (\<forall>r. response self = Some r \<and> json_body r = None \<longrightarrow> res = Inr PyNone) \<and>
         (\<forall>rp0 srv0 self0 w0 t0 o0 d0 v.
            connect rp0 srv0 self0 w0 t0 o0 d0 = (Inr v, self, w) \<longrightarrow> res = Inr v)"
proof -
  from bad have unk: "conn_type \<notin> verbs" by (simp add: verbs_def)
  let ?self1 = "self\<lparr>full_url := Some (api_url (url self) option)\<rparr>"
  have eq: "read_response ?self1 w = (res, self', w')"
    using connect_unknown [OF unk, of rp srv self w option post_data] call by simp
  have tr: "trace w' = trace w"
    using read_response_trace [of ?self1 w] eq by simp
  have none: "res = Inl (AttributeError ''response'')" if "response self = None"
    using eq that by (simp add: read_response_def)
  have some: "res = (case json_body r of Some j \<Rightarrow> Inr j | None \<Rightarrow> Inr PyNone)"
    if "response self = Some r" for r
    using read_response_value [of ?self1 r w] eq that by simp
  have prior: "res = Inr v"
    if "connect rp0 srv0 self0 w0 t0 o0 d0 = (Inr v, self, w)"
    for rp0 srv0 self0 w0 t0 o0 d0 v
  proof -
    from connect_returned [OF that] obtain r where
      "response self = Some r"
      "(case json_body r of Some j \<Rightarrow> Inr j | None \<Rightarrow> Inr PyNone) = (Inr v :: exn + pyval)"
      by blast
    with some show ?thesis by simp
  qed
  from tr none some prior show ?thesis by (auto split: option.splits)
qed

theorem unknown_verb_sends_nothing_witness:
  "''patch'' \<notin> {''get'', ''post'', ''put'', ''delete''} \<and>
   fst (connect sample_repr mock_server mock_session world0 ''patch'' ''nodes/pve/dns'' None)
     = Inl (AttributeError ''response'') \<and>
   trace (snd (snd (connect sample_repr mock_server mock_session world0
      ''patch'' ''nodes/pve/dns'' None))) = [] \<and>
   fst (run_calls sample_repr mock_server mock_session world0
      [(''get'', ''cluster/status'', None), (''patch'', ''nodes/pve/dns'', None)])
     = [Inr status_data, Inr status_data] \<and>
   map http_method (trace (snd (snd (run_calls sample_repr mock_server mock_session world0
      [(''get'', ''cluster/status'', None), (''patch'', ''nodes/pve/dns'', None)])))) = [GET]"
proof -
  let ?r = "connect sample_repr mock_server mock_session world0 ''patch'' ''nodes/pve/dns'' None"
  have bad: "''patch'' \<notin> {''get'', ''post'', ''put'', ''delete''}" by simp
  have call: "?r = (fst ?r, fst (snd ?r), snd (snd ?r))"
    by (rule collapse3)
  have fresh: "response mock_session = None"
    by (simp add: mock_session_def)
  from unknown_verb_sends_nothing [OF bad call] fresh have one:
    "trace (snd (snd ?r)) = trace world0" "fst ?r = Inl (AttributeError ''response'')"
    by simp_all
  have two: "fst (run_calls sample_repr mock_server mock_session world0
      [(''get'', ''cluster/status'', None), (''patch'', ''nodes/pve/dns'', None)])
     = [Inr status_data, Inr status_data]"
    by (simp add: connect_def build_request_def send_def read_response_def Let_def
          mock_server_def mock_session_def world0_def status_reply_def ticket_url_def api_url_def)
  have three: "map http_method (trace (snd (snd (run_calls sample_repr mock_server mock_session world0
      [(''get'', ''cluster/status'', None), (''patch'', ''nodes/pve/dns'', None)])))) = [GET]"
    by (simp add: connect_def build_request_def send_def read_response_def Let_def
          mock_server_def mock_session_def world0_def status_reply_def ticket_url_def api_url_def)
  from one two three bad show ?thesis
    by (simp add: world0_def)
qed

section \<open>Session establishment\<close>

lemma py_getitem_errors:
  "py_getitem v k = Inl e \<Longrightarrow> e = TypeError \<or> e = KeyError k"
  by (cases v) (auto split: option.splits)

lemma prox_auth_init_trace:
  "trace (snd (prox_auth_init srv w host username password)) =
     trace w @ [auth_request host username password]"
  by (simp add: prox_auth_init_def send_def split: net_result.splits option.splits sum.splits)

lemma prox_auth_init_stdout:
  "stdout (snd (prox_auth_init srv w host username password)) = stdout w"
  by (simp add: prox_auth_init_def send_def split: net_result.splits option.splits sum.splits)

lemma prox_auth_init_error:
  "srv (trace w) (auth_request host username password) = NetError m \<Longrightarrow>
     fst (prox_auth_init srv w host username password) = Inl (RequestException m)"
  by (simp add: prox_auth_init_def send_def)

lemma prox_auth_init_not_json:
  "srv (trace w) (auth_request host username password) = NetReply r \<Longrightarrow> json_body r = None \<Longrightarrow>
     fst (prox_auth_init srv w host username password) = Inl ValueError"
  by (simp add: prox_auth_init_def send_def)

lemma prox_auth_init_fields:
  assumes "srv (trace w) (auth_request host username password) = NetReply r"
    and "json_body r = Some rd"
    and "py_getitem rd ''data'' = Inr d"
    and "py_getitem d ''ticket'' = Inr t"
    and "py_getitem d ''CSRFPreventionToken'' = Inr c"
  shows "fst (prox_auth_init srv w host username password) =
     Inr \<lparr>auth_url = host,
          auth_connect_data = [(''username'', username), (''password'', password)],
          auth_full_url = ticket_url host, auth_response = r, auth_returned_data = rd,
          auth_ticket = [(''PVEAuthCookie'', t)], auth_CSRF = c\<rparr>"
  using assms by (simp add: prox_auth_init_def send_def)

lemma prox_auth_init_missing:
  assumes r: "srv (trace w) (auth_request host username password) = NetReply r"
    and j: "json_body r = Some rd"
    and m: "\<not> has_token_fields rd"
  shows "fst (prox_auth_init srv w host username password) \<in>
     {Inl TypeError, Inl (KeyError ''data''), Inl (KeyError ''ticket''),
      Inl (KeyError ''CSRFPreventionToken'')}"
proof (cases "py_getitem rd ''data''")
  case (Inl e)
  with r j py_getitem_errors [OF Inl] show ?thesis
    by (auto simp add: prox_auth_init_def send_def)
next
  case d: (Inr d)
  show ?thesis
  proof (cases "py_getitem d ''ticket''")
    case (Inl e)
    with r j d py_getitem_errors [OF Inl] show ?thesis
      by (auto simp add: prox_auth_init_def send_def)
  next
    case t: (Inr t)
    show ?thesis
    proof (cases "py_getitem d ''CSRFPreventionToken''")
      case (Inl e)
      with r j d t py_getitem_errors [OF Inl] show ?thesis
        by (auto simp add: prox_auth_init_def send_def)
    next
      case (Inr c)
      with d t m show ?thesis by (simp add: has_token_fields_def)
    qed
  qed
qed

lemma prox_auth_init_no_exit:
  "fst (prox_auth_init srv w host username password) \<noteq> Inl SystemExit"
proof (cases "srv (trace w) (auth_request host username password)")
  case (NetError m)
  from prox_auth_init_error [where srv = srv and w = w, OF this] show ?thesis by simp
next
  case (NetReply r)
  show ?thesis
  proof (cases "json_body r")
    case None
    from prox_auth_init_not_json [where srv = srv and w = w, OF NetReply None] show ?thesis by simp
  next
    case (Some rd)
    show ?thesis
    proof (cases "has_token_fields rd")
      case False
      from prox_auth_init_missing [where srv = srv and w = w, OF NetReply Some False] show ?thesis by auto
    next
      case True
      then obtain d t c where "py_getitem rd ''data'' = Inr d" "py_getitem d ''ticket'' = Inr t"
        "py_getitem d ''CSRFPreventionToken'' = Inr c"
        by (auto simp add: has_token_fields_def split: sum.splits)
      from prox_auth_init_fields [where srv = srv and w = w, OF NetReply Some this] show ?thesis by simp
    qed
  qed
qed

text \<open>
  Claim C3. \<^verbatim>\<open>prox_auth.__init__\<close> makes exactly one request, whatever comes back: a
  \<^verbatim>\<open>requests.post\<close> to \<^verbatim>\<open>https://{host}:8006/api2/json/access/ticket\<close> whose \<^verbatim>\<open>data\<close>
  is the dict of the username and the password, which \<^verbatim>\<open>requests\<close> sends form-encoded.
  When the reply decodes to a value with \<^verbatim>\<open>data.ticket\<close> \<open>T\<close> and
  \<^verbatim>\<open>data.CSRFPreventionToken\<close> \<open>C\<close>, in particular to
  \<^verbatim>\<open>{data: {ticket: T, CSRFPreventionToken: C}}\<close>, the object made has the cookie value
  \<open>T\<close> and the token \<open>C\<close>.
\<close>

theorem session_establishment:
  "auth_request host username password =
     \<lparr>http_method = POST,
      http_url = ''https://'' @ host @ '':8006/api2/json/access/ticket'',
      http_verify = False,
      http_data = Some [(''username'', username), (''password'', password)],
      http_cookies = None, http_headers = None\<rparr> \<and>
   trace (snd (prox_auth_init srv w host username password)) =
     trace w @ [auth_request host username password] \<and>
   (\<forall>r rd d T C.
      srv (trace w) (auth_request host username password) = NetReply r \<and>
      json_body r = Some rd \<and> py_getitem rd ''data'' = Inr d \<and>
      py_getitem d ''ticket'' = Inr T \<and> py_getitem d ''CSRFPreventionToken'' = Inr C \<longrightarrow>
      (\<exists>a. fst (prox_auth_init srv w host username password) = Inr a \<and>
           auth_url a = host \<and> auth_ticket a = [(''PVEAuthCookie'', T)] \<and> auth_CSRF a = C)) \<and>
   (\<forall>r T C.
      srv (trace w) (auth_request host username password) = NetReply r \<and>
      json_body r =
        Some (PyDict [(''data'', PyDict [(''ticket'', T), (''CSRFPreventionToken'', C)])]) \<longrightarrow>
      (\<exists>a. fst (prox_auth_init srv w host username password) = Inr a \<and>
           auth_url a = host \<and> auth_ticket a = [(''PVEAuthCookie'', T)] \<and> auth_CSRF a = C))"
proof -
  have zero: "auth_request host username password =
     \<lparr>http_method = POST,
      http_url = ''https://'' @ host @ '':8006/api2/json/access/ticket'',
      http_verify = False,
      http_data = Some [(''username'', username), (''password'', password)],
      http_cookies = None, http_headers = None\<rparr>"
    by (simp add: auth_request_def ticket_url_def)
  have one: "trace (snd (prox_auth_init srv w host username password)) =
     trace w @ [auth_request host username password]"
    by (rule prox_auth_init_trace)
  have two: "\<exists>a. fst (prox_auth_init srv w host username password) = Inr a \<and>
           auth_url a = host \<and> auth_ticket a = [(''PVEAuthCookie'', T)] \<and> auth_CSRF a = C"
    if "srv (trace w) (auth_request host username password) = NetReply r"
      "json_body r = Some rd" "py_getitem rd ''data'' = Inr d"
      "py_getitem d ''ticket'' = Inr T" "py_getitem d ''CSRFPreventionToken'' = Inr C"
    for r rd d T C
    using prox_auth_init_fields [where srv = srv and w = w, OF that] by simp
  have three: "\<exists>a. fst (prox_auth_init srv w host username password) = Inr a \<and>
           auth_url a = host \<and> auth_ticket a = [(''PVEAuthCookie'', T)] \<and> auth_CSRF a = C"
    if r: "srv (trace w) (auth_request host username password) = NetReply r"
      and j: "json_body r =
        Some (PyDict [(''data'', PyDict [(''ticket'', T), (''CSRFPreventionToken'', C)])])"
    for r T C
  proof -
    have "py_getitem (PyDict [(''data'', PyDict [(''ticket'', T), (''CSRFPreventionToken'', C)])])
        ''data'' = Inr (PyDict [(''ticket'', T), (''CSRFPreventionToken'', C)])"
      "py_getitem (PyDict [(''ticket'', T), (''CSRFPreventionToken'', C)]) ''ticket'' = Inr T"
      "py_getitem (PyDict [(''ticket'', T), (''CSRFPreventionToken'', C)]) ''CSRFPreventionToken''
         = Inr C"
      by simp_all
    from two [OF r j this] show ?thesis .
  qed
  from zero one two three show ?thesis by blast
qed

theorem session_establishment_witness:
  "mock_server (trace world0) (auth_request ''host'' ''root@pam'' ''secret'') = NetReply mock_auth_reply \<and>
   json_body mock_auth_reply =
     Some (PyDict [(''data'',
       PyDict [(''ticket'', PyStr ''T1''), (''CSRFPreventionToken'', PyStr ''C1'')])]) \<and>
   (\<exists>a. fst (prox_auth_init mock_server world0 ''host'' ''root@pam'' ''secret'') = Inr a \<and>
        auth_ticket a = [(''PVEAuthCookie'', PyStr ''T1'')] \<and> auth_CSRF a = PyStr ''C1'')"
proof -
  have r: "mock_server (trace world0) (auth_request ''host'' ''root@pam'' ''secret'')
      = NetReply mock_auth_reply"
    by (simp add: mock_server_def auth_request_def)
  have j: "json_body mock_auth_reply =
     Some (PyDict [(''data'',
       PyDict [(''ticket'', PyStr ''T1''), (''CSRFPreventionToken'', PyStr ''C1'')])])"
    by (simp add: mock_auth_reply_def mock_data_def)
  from session_establishment [where srv = mock_server and w = world0 and host = "''host''"
      and username = "''root@pam''" and password = "''secret''"] r j
  have "\<exists>a. fst (prox_auth_init mock_server world0 ''host'' ''root@pam'' ''secret'') = Inr a \<and>
        auth_url a = ''host'' \<and>
        auth_ticket a = [(''PVEAuthCookie'', PyStr ''T1'')] \<and> auth_CSRF a = PyStr ''C1''"
    by blast
  with r j show ?thesis by blast
qed

text \<open>
  Claim C5, as the code has it. A failure of session establishment reaches the caller of
  \<^verbatim>\<open>prox_auth.__init__\<close> as the exception of the step that failed: the transport's
  exception when the request fails, \<^verbatim>\<open>ValueError\<close> when the body is not JSON,
  \<^verbatim>\<open>TypeError\<close> or \<^verbatim>\<open>KeyError\<close> when \<^verbatim>\<open>data.ticket\<close> or
  \<^verbatim>\<open>data.CSRFPreventionToken\<close> is missing. The constructor prints nothing and does not
  exit. There is no error kind of its own for a failed authentication.
\<close>

theorem auth_failure_raises_underlying:
  "stdout (snd (prox_auth_init srv w host username password)) = stdout w \<and>
   fst (prox_auth_init srv w host username password) \<noteq> Inl SystemExit \<and>
   (\<forall>m. srv (trace w) (auth_request host username password) = NetError m \<longrightarrow>
        fst (prox_auth_init srv w host username password) = Inl (RequestException m)) \<and>
   (\<forall>r. srv (trace w) (auth_request host username password) = NetReply r \<and>
        json_body r = None \<longrightarrow>
        fst (prox_auth_init srv w host username password) = Inl ValueError) \<and>
   (\<forall>r rd. srv (trace w) (auth_request host username password) = NetReply r \<and>
        json_body r = Some rd \<and> \<not> has_token_fields rd \<longrightarrow>
        fst (prox_auth_init srv w host username password) \<in>
          {Inl TypeError, Inl (KeyError ''data''), Inl (KeyError ''ticket''),
           Inl (KeyError ''CSRFPreventionToken'')})"
  using prox_auth_init_stdout [of srv w host username password]
    prox_auth_init_no_exit [of srv w host username password]
    prox_auth_init_error [of srv w host username password]
    prox_auth_init_not_json [of srv w host username password]
    prox_auth_init_missing [of srv w host username password]
  by blast

theorem auth_failure_raises_underlying_witness:
  "down_server (trace world0) (auth_request ''host'' ''root@pam'' ''secret'')
     = NetError ''Connection refused'' \<and>
   fst (prox_auth_init down_server world0 ''host'' ''root@pam'' ''secret'')
     = Inl (RequestException ''Connection refused'') \<and>
   stdout (snd (prox_auth_init down_server world0 ''host'' ''root@pam'' ''secret'')) = []"
proof -
  have r: "down_server (trace world0) (auth_request ''host'' ''root@pam'' ''secret'')
     = NetError ''Connection refused''"
    by (simp add: down_server_def)
  from auth_failure_raises_underlying [of down_server world0 "''host''" "''root@pam''" "''secret''"] r
  have "fst (prox_auth_init down_server world0 ''host'' ''root@pam'' ''secret'')
     = Inl (RequestException ''Connection refused'')"
    "stdout (snd (prox_auth_init down_server world0 ''host'' ''root@pam'' ''secret'')) = stdout world0"
    by blast+
  with r show ?thesis by (simp add: world0_def)
qed

text \<open>
  The claim as the specification words it fails: a refused connection during session
  establishment raises the same exception as a refused connection in \<^verbatim>\<open>connect\<close>, and
  a reply that is not JSON, a reply whose \<^verbatim>\<open>data\<close> is \<^verbatim>\<open>null\<close> and a reply without a
  ticket raise three other exceptions.
\<close>

theorem auth_failure_not_distinct:
  "fst (prox_auth_init down_server world0 ''host'' ''root@pam'' ''secret'')
     = Inl (RequestException ''Connection refused'') \<and>
   fst (connect sample_repr down_server mock_session world0 ''get'' ''cluster/status'' None)
     = Inl (RequestException ''Connection refused'') \<and>
   fst (prox_auth_init html_server world0 ''host'' ''root@pam'' ''secret'') = Inl ValueError \<and>
   fst (prox_auth_init null_server world0 ''host'' ''root@pam'' ''secret'') = Inl TypeError \<and>
   fst (prox_auth_init bare_server world0 ''host'' ''root@pam'' ''secret'')
     = Inl (KeyError ''ticket'')"
  by (simp add: prox_auth_init_def connect_def build_request_def send_def Let_def
        down_server_def html_server_def null_server_def bare_server_def
        html_reply_def null_reply_def bare_reply_def)

text \<open>
  Printing and exiting is what the callers' helper does with a failure of loading a
  session, outside the two classes.
\<close>

lemma get_auth_prints_and_exits:
  "e \<noteq> SystemExit \<Longrightarrow>
     get_auth (Inl e) w = (Inl SystemExit, w\<lparr>stdout := stdout w @ [OutExn e]\<rparr>)"
  by (simp add: get_auth_def py_print_def)

lemma get_auth_returns_session: "get_auth (Inr prox) w = (Inr prox, w)"
  by (simp add: get_auth_def)

section \<open>Replies that are not JSON\<close>

text \<open>
  Claim C4, as the code has it. When the reply to a dispatched request is not valid JSON,
  \<^verbatim>\<open>connect\<close> raises nothing: it prints the line \<^verbatim>\<open>Error in trying to process JSON\<close> and
  then the response object, and returns \<^verbatim>\<open>None\<close>. The response stays in
  \<^verbatim>\<open>self.response\<close>, and \<^verbatim>\<open>self.returned_data\<close> is not assigned.
\<close>

theorem malformed_body_returns_none:
  assumes verb: "conn_type \<in> {''get'', ''post'', ''put'', ''delete''}"
    and call: "connect rp srv self w conn_type option post_data = (res, self', w')"
    and sent: "trace w' = trace w @ [req]"
    and reply: "srv (trace w) req = NetReply r"
    and bad: "json_body r = None"
  shows "res = Inr PyNone \<and>
         stdout w' = stdout w @ [OutStr ''Error in trying to process JSON'', OutResponse r] \<and>
         response self' = Some r \<and> returned_data self' = returned_data self"
proof -
  from verb have known: "conn_type \<in> verbs" by (simp add: verbs_def)
  from build_request_known [OF known, of rp self "api_url (url self) option" post_data]
  obtain req0 where b: "build_request rp self conn_type (api_url (url self) option) post_data = Some req0"
    by blast
  have "trace w' = trace w @ [req0]"
    using connect_trace [of rp srv self w conn_type option post_data] call b by simp
  with sent have "req0 = req" by simp
  with b have b': "build_request rp self conn_type (api_url (url self) option) post_data = Some req"
    by simp
  from connect_reply [where srv = srv and w = w, OF b' reply] call
  have "read_response (self\<lparr>full_url := Some (api_url (url self) option), response := Some r\<rparr>)
      (w\<lparr>trace := trace w @ [req]\<rparr>) = (res, self', w')"
    by simp
  with bad show ?thesis
    by (auto simp add: read_response_def py_print_def)
qed

theorem malformed_body_returns_none_witness:
  "''get'' \<in> {''get'', ''post'', ''put'', ''delete''} \<and>
   json_body html_reply = None \<and>
   fst (connect sample_repr html_server mock_session world0 ''get'' ''cluster/status'' None)
     = Inr PyNone \<and>
   response (fst (snd (connect sample_repr html_server mock_session world0
      ''get'' ''cluster/status'' None))) = Some html_reply"
proof -
  let ?r = "connect sample_repr html_server mock_session world0 ''get'' ''cluster/status'' None"
  let ?req = "\<lparr>http_method = GET, http_url = api_url (url mock_session) ''cluster/status'',
      http_verify = False, http_data = None, http_cookies = Some (ticket mock_session),
      http_headers = None\<rparr>"
  have verb: "''get'' \<in> {''get'', ''post'', ''put'', ''delete''}" by simp
  have call: "?r = (fst ?r, fst (snd ?r), snd (snd ?r))"
    by (rule collapse3)
  have sent: "trace (snd (snd ?r)) = trace world0 @ [?req]"
    by (simp add: connect_trace build_request_get)
  have reply: "html_server (trace world0) ?req = NetReply html_reply"
    by (simp add: html_server_def)
  have bad: "json_body html_reply = None"
    by (simp add: html_reply_def)
  from malformed_body_returns_none [OF verb call sent reply bad] verb bad show ?thesis
    by simp
qed

text \<open>
  The claim as the specification words it fails: on an HTML error page the call returns
  \<^verbatim>\<open>None\<close> to the caller, after two prints, and signals no error.
\<close>

theorem malformed_body_no_error:
  "fst (connect sample_repr html_server mock_session world0 ''get'' ''cluster/status'' None)
     = Inr PyNone \<and>
   stdout (snd (snd (connect sample_repr html_server mock_session world0
      ''get'' ''cluster/status'' None)))
     = [OutStr ''Error in trying to process JSON'', OutResponse html_reply]"
  by (simp add: connect_def build_request_def send_def read_response_def py_print_def Let_def
        html_server_def html_reply_def world0_def)

section \<open>Endpoint wrappers: cluster status and migration\<close>

text \<open>
  Claim C7. \<^verbatim>\<open>getClusterStatus\<close> on the dispatcher built from a session sends exactly
  one request: a \<^verbatim>\<open>requests.get\<close> to \<^verbatim>\<open>https://{host}:8006/api2/json/cluster/status\<close>
  with the ticket of the session as cookie, no headers and so no CSRF header. When the
  reply decodes to a JSON value, that value is returned as it is.
\<close>

theorem cluster_status_get:
  assumes call: "getClusterStatus rp srv (pyproxmox_init a) w = (res, self', w')"
  shows "let req = \<lparr>http_method = GET,
                   http_url = ''https://'' @ auth_url a @ '':8006/api2/json/cluster/status'',
                   http_verify = False, http_data = None,
                   http_cookies = Some (auth_ticket a), http_headers = None\<rparr>
         in trace w' = trace w @ [req] \<and> csrf_header req = None \<and>
            (\<forall>r j. srv (trace w) req = NetReply r \<and> json_body r = Some j \<longrightarrow> res = Inr j)"
proof -
  let ?self = "pyproxmox_init a"
  let ?req = "\<lparr>http_method = GET,
                   http_url = ''https://'' @ auth_url a @ '':8006/api2/json/cluster/status'',
                   http_verify = False, http_data = None,
                   http_cookies = Some (auth_ticket a), http_headers = None\<rparr>"
  from call have c: "connect rp srv ?self w ''get'' ''cluster/status'' None = (res, self', w')"
    by (simp add: getClusterStatus_def)
  have b: "build_request rp ?self ''get'' (api_url (url ?self) ''cluster/status'') None = Some ?req"
    by (simp add: build_request_get pyproxmox_init_def api_url_def)
  have tr: "trace w' = trace w @ [?req]"
    using connect_trace [of rp srv ?self w "''get''" "''cluster/status''" None] c b by simp
  have no: "csrf_header ?req = None"
    by (simp add: csrf_header_def)
  have val: "res = Inr j" if r: "srv (trace w) ?req = NetReply r" and j: "json_body r = Some j" for r j
  proof -
    from connect_reply [where srv = srv and w = w, OF b r] c
    have "read_response (?self\<lparr>full_url := Some (api_url (url ?self) ''cluster/status''),
        response := Some r\<rparr>) (w\<lparr>trace := trace w @ [?req]\<rparr>) = (res, self', w')"
      by simp
    with j show ?thesis by (auto simp add: read_response_def)
  qed
  from tr no val show ?thesis by (simp add: Let_def)
qed

theorem cluster_status_get_witness:
  "fst (prox_auth_init mock_server world0 ''host'' ''root@pam'' ''secret'') = Inr mock_auth \<and>
   map http_cookies (trace (snd (snd (getClusterStatus sample_repr mock_server
      (pyproxmox_init mock_auth)
      (snd (prox_auth_init mock_server world0 ''host'' ''root@pam'' ''secret''))))))
     = [None, Some [(''PVEAuthCookie'', PyStr ''T1'')]] \<and>
   map http_url (trace (snd (snd (getClusterStatus sample_repr mock_server
      (pyproxmox_init mock_auth)
      (snd (prox_auth_init mock_server world0 ''host'' ''root@pam'' ''secret''))))))
     = [''https://host:8006/api2/json/access/ticket'',
        ''https://host:8006/api2/json/cluster/status''] \<and>
   fst (getClusterStatus sample_repr mock_server (pyproxmox_init mock_auth)
      (snd (prox_auth_init mock_server world0 ''host'' ''root@pam'' ''secret''))) = Inr status_data"
proof -
  let ?w1 = "snd (prox_auth_init mock_server world0 ''host'' ''root@pam'' ''secret'')"
  let ?r = "getClusterStatus sample_repr mock_server (pyproxmox_init mock_auth) ?w1"
  let ?req = "\<lparr>http_method = GET,
                   http_url = ''https://'' @ auth_url mock_auth @ '':8006/api2/json/cluster/status'',
                   http_verify = False, http_data = None,
                   http_cookies = Some (auth_ticket mock_auth), http_headers = None\<rparr>"
  have auth: "fst (prox_auth_init mock_server world0 ''host'' ''root@pam'' ''secret'') = Inr mock_auth"
    by (simp add: prox_auth_init_def send_def mock_server_def auth_request_def
          mock_auth_reply_def mock_data_def mock_auth_def)
  have w1: "trace ?w1 = [auth_request ''host'' ''root@pam'' ''secret'']"
    by (simp add: prox_auth_init_trace world0_def)
  have call: "?r = (fst ?r, fst (snd ?r), snd (snd ?r))"
    by (rule collapse3)
  have reply: "mock_server (trace ?w1) ?req = NetReply status_reply"
    by (simp add: mock_server_def mock_auth_def ticket_url_def)
  have j: "json_body status_reply = Some status_data"
    by (simp add: status_reply_def)
  from cluster_status_get [OF call] reply j have
    "trace (snd (snd ?r)) = trace ?w1 @ [?req]" "fst ?r = Inr status_data"
    by (auto simp add: Let_def)
  with auth show ?thesis
    by (simp add: w1 auth_request_def ticket_url_def mock_auth_def)
qed

text \<open>
  Claim C9. \<^verbatim>\<open>migrateVirtualMachine\<close> is one \<^verbatim>\<open>post\<close> call of \<^verbatim>\<open>connect\<close> with the body
  \<^verbatim>\<open>{'target': str(target)}\<close> and the path \<^verbatim>\<open>nodes/{node}/qemu/{vmid}/status/start\<close>,
  the path that starts a machine; \<^verbatim>\<open>migrateOpenvzContainer\<close> is one \<^verbatim>\<open>post\<close> call with
  the same body and the path \<^verbatim>\<open>nodes/{node}/openvz/{vmid}/migrate\<close>. Each sends exactly
  one \<^verbatim>\<open>requests.post\<close>.
\<close>

theorem migrate_paths:
  "migrateVirtualMachine rp srv self w node vmid target =
     connect rp srv self w ''post''
       (''nodes/'' @ py_str rp node @ ''/qemu/'' @ py_str rp vmid @ ''/status/start'')
       (Some [(''target'', py_str rp target)]) \<and>
   trace (snd (snd (migrateVirtualMachine rp srv self w node vmid target))) =
     trace w @
       [\<lparr>http_method = POST,
         http_url = ''https://'' @ url self @ '':8006/api2/json/'' @
           ''nodes/'' @ py_str rp node @ ''/qemu/'' @ py_str rp vmid @ ''/status/start'',
         http_verify = False,
         http_data = Some [(''target'', py_str rp target)],
         http_cookies = Some (ticket self),
         http_headers = Some (csrf_headers rp self)\<rparr>] \<and>
   migrateOpenvzContainer rp srv self w node vmid target =
     connect rp srv self w ''post''
       (''nodes/'' @ py_str rp node @ ''/openvz/'' @ py_str rp vmid @ ''/migrate'')
       (Some [(''target'', py_str rp target)]) \<and>
   trace (snd (snd (migrateOpenvzContainer rp srv self w node vmid target))) =
     trace w @
       [\<lparr>http_method = POST,
         http_url = ''https://'' @ url self @ '':8006/api2/json/'' @
           ''nodes/'' @ py_str rp node @ ''/openvz/'' @ py_str rp vmid @ ''/migrate'',
         http_verify = False,
         http_data = Some [(''target'', py_str rp target)],
         http_cookies = Some (ticket self),
         http_headers = Some (csrf_headers rp self)\<rparr>]"
  by (simp add: migrateVirtualMachine_def migrateOpenvzContainer_def connect_trace
        build_request_def api_url_def)

theorem migrate_paths_witness:
  "map http_url (trace (snd (snd (migrateVirtualMachine sample_repr mock_server mock_session world0
      (PyStr ''pve'') (PyStr ''100'') (PyStr ''pve2'')))))
     = [''https://host:8006/api2/json/nodes/pve/qemu/100/status/start''] \<and>
   map http_url (trace (snd (snd (migrateOpenvzContainer sample_repr mock_server mock_session world0
      (PyStr ''pve'') (PyStr ''100'') (PyStr ''pve2'')))))
     = [''https://host:8006/api2/json/nodes/pve/openvz/100/migrate''] \<and>
   map http_data (trace (snd (snd (migrateVirtualMachine sample_repr mock_server mock_session world0
      (PyStr ''pve'') (PyStr ''100'') (PyStr ''pve2'')))))
     = [Some [(''target'', ''pve2'')]]"
proof -
  let ?vm = "migrateVirtualMachine sample_repr mock_server mock_session world0
      (PyStr ''pve'') (PyStr ''100'') (PyStr ''pve2'')"
  let ?ct = "migrateOpenvzContainer sample_repr mock_server mock_session world0
      (PyStr ''pve'') (PyStr ''100'') (PyStr ''pve2'')"
  note all = migrate_paths [of sample_repr mock_server mock_session world0
      "PyStr ''pve''" "PyStr ''100''" "PyStr ''pve2''"]
  from all have vm: "trace (snd (snd ?vm)) =
     trace world0 @
       [\<lparr>http_method = POST,
         http_url = ''https://'' @ url mock_session @ '':8006/api2/json/'' @
           ''nodes/'' @ py_str sample_repr (PyStr ''pve'') @ ''/qemu/'' @
           py_str sample_repr (PyStr ''100'') @ ''/status/start'',
         http_verify = False,
         http_data = Some [(''target'', py_str sample_repr (PyStr ''pve2''))],
         http_cookies = Some (ticket mock_session),
         http_headers = Some (csrf_headers sample_repr mock_session)\<rparr>]"
    by blast
  from all have ct: "trace (snd (snd ?ct)) =
     trace world0 @
       [\<lparr>http_method = POST,
         http_url = ''https://'' @ url mock_session @ '':8006/api2/json/'' @
           ''nodes/'' @ py_str sample_repr (PyStr ''pve'') @ ''/openvz/'' @
           py_str sample_repr (PyStr ''100'') @ ''/migrate'',
         http_verify = False,
         http_data = Some [(''target'', py_str sample_repr (PyStr ''pve2''))],
         http_cookies = Some (ticket mock_session),
         http_headers = Some (csrf_headers sample_repr mock_session)\<rparr>]"
    by blast
  show ?thesis
    unfolding vm ct by (simp add: world0_def mock_session_def)
qed

end
